theory Spec2Isabelle
  imports Main "HOL-Library.Char_ord" "HOL-Library.List_Lexorder" "HOL-Library.AList"
begin

section \<open>Python built-ins the scripts rely on\<close>

text \<open>
  \<^verbatim>\<open>max(xs, key=k)\<close> walks the list once and replaces the running best only by an
  element whose key is strictly greater, so the first of several maximal elements is
  returned. On an empty list it raises \<^verbatim>\<open>ValueError\<close>, which is \<open>None\<close> here.
\<close>

fun max_from :: "('a \<Rightarrow> 'k::linorder) \<Rightarrow> 'a \<Rightarrow> 'a list \<Rightarrow> 'a" where
  "max_from key best [] = best"
| "max_from key best (x # xs) =
     (if key best < key x then max_from key x xs else max_from key best xs)"

definition py_max :: "('a \<Rightarrow> 'k::linorder) \<Rightarrow> 'a list \<Rightarrow> 'a option" where
  "py_max key xs = (case xs of [] \<Rightarrow> None | x # rest \<Rightarrow> Some (max_from key x rest))"

text \<open>\<^verbatim>\<open>s.startswith(p)\<close>, \<^verbatim>\<open>p in s\<close> and \<^verbatim>\<open>s.split('/')[-1]\<close> on strings.\<close>

definition startswith :: "string \<Rightarrow> string \<Rightarrow> bool" where
  "startswith s p = (take (length p) s = p)"

fun contains :: "string \<Rightarrow> string \<Rightarrow> bool" where
  "contains [] p = (p = [])"
| "contains (c # cs) p = (startswith (c # cs) p \<or> contains cs p)"

definition split_last :: "string \<Rightarrow> string" where
  "split_last s = rev (takeWhile (\<lambda>c. c \<noteq> CHR ''/'') (rev s))"

text \<open>
  \<^verbatim>\<open>re.search(r'(\d{4})', s)\<close>: the leftmost run of four decimal digits, if any
  (ASCII digits; the pattern's group is the whole match).
\<close>

definition is_digit :: "char \<Rightarrow> bool" where
  "is_digit c = (CHR ''0'' \<le> c \<and> c \<le> CHR ''9'')"

fun search_d4 :: "string \<Rightarrow> string option" where
  "search_d4 [] = None"
| "search_d4 (c # cs) =
     (if 4 \<le> length (c # cs) \<and> list_all is_digit (take 4 (c # cs))
      then Some (take 4 (c # cs)) else search_d4 cs)"

text \<open>\<^verbatim>\<open>int(digits)\<close> on a string of decimal digits, and \<^verbatim>\<open>str(n)\<close> as an f-string prints it.\<close>

definition digit_val :: "char \<Rightarrow> nat" where
  "digit_val c = of_char c - 48"

definition int_of_digits :: "string \<Rightarrow> int" where
  "int_of_digits s = int (foldl (\<lambda>a c. 10 * a + digit_val c) 0 s)"

fun str_nat :: "nat \<Rightarrow> string" where
  "str_nat n =
     (if n < 10 then [char_of (48 + n)] else str_nat (n div 10) @ [char_of (48 + n mod 10)])"

declare str_nat.simps [simp del]

definition str_int :: "int \<Rightarrow> string" where
  "str_int i = (if i < 0 then CHR ''-'' # str_nat (nat (- i)) else str_nat (nat i))"

definition path_join :: "string \<Rightarrow> string \<Rightarrow> string" where
  "path_join dir name = dir @ ''/'' @ name"

section \<open>Tables\<close>

text \<open>
  A pandas DataFrame as the scripts use it: a row count and the columns in order, each a
  name with one cell per row. \<^verbatim>\<open>df[c] = v\<close> with a scalar overwrites the column named
  \<open>c\<close> where it stands, or appends it as the last column, with \<open>v\<close> in every row.
\<close>

datatype cell = NaN | Text string | Num int

record dataframe =
  nrows :: nat
  columns :: "(string \<times> cell list) list"

definition DataFrame :: "(string \<times> cell) list list \<Rightarrow> dataframe" where
  "DataFrame recs =
     \<lparr>nrows = length recs,
      columns = map (\<lambda>k. (k, map (\<lambda>r. case map_of r k of Some v \<Rightarrow> v | None \<Rightarrow> NaN) recs))
                  (rev (remdups (rev (concat (map (map fst) recs)))))\<rparr>"

text \<open>
  \<^verbatim>\<open>pd.DataFrame(dict_of_lists)\<close>, used on lists of one length only (pandas raises on
  lists of different lengths).
\<close>

definition DataFrame_of_columns :: "(string \<times> cell list) list \<Rightarrow> dataframe" where
  "DataFrame_of_columns cols =
     \<lparr>nrows = (case cols of [] \<Rightarrow> 0 | c # _ \<Rightarrow> length (snd c)), columns = cols\<rparr>"

definition rename :: "(string \<times> string) list \<Rightarrow> dataframe \<Rightarrow> dataframe" where
  "rename mapping df =
     df\<lparr>columns := map (\<lambda>(c, vs). ((case map_of mapping c of Some c' \<Rightarrow> c' | None \<Rightarrow> c), vs))
                      (columns df)\<rparr>"

definition set_column :: "string \<Rightarrow> cell \<Rightarrow> dataframe \<Rightarrow> dataframe" where
  "set_column c v df = df\<lparr>columns := AList.update c (replicate (nrows df) v) (columns df)\<rparr>"

definition column :: "dataframe \<Rightarrow> string \<Rightarrow> cell list option" where
  "column df c = map_of (columns df) c"

text \<open>\<^verbatim>\<open>df.to_dict('records')\<close>, also the rows \<^verbatim>\<open>df.to_sql\<close> inserts: one dictionary per row.\<close>

definition to_records :: "dataframe \<Rightarrow> (string \<times> cell) list list" where
  "to_records df =
     map (\<lambda>i. map (\<lambda>(c, vs). (c, if i < length vs then vs ! i else NaN)) (columns df))
       [0..<nrows df]"

section \<open>The world outside the process, and what the scripts persist\<close>

text \<open>
  \<^verbatim>\<open>requests.get\<close> raises on a network failure or timeout, \<^verbatim>\<open>raise_for_status\<close> raises on
  a failing status; otherwise the response body is read. Every \<^verbatim>\<open>try\<close> block of the scripts
  catches \<^verbatim>\<open>Exception\<close>, so each raise is a branch that ends in the handler's return value.
\<close>

datatype 'a http = ConnectionError | HTTPError | Response 'a

text \<open>
  The relational collaborator: the connection (or the delete statement) may fail, or the
  insert may fail after the delete was committed.
\<close>

datatype db_fault = DbOk | DbDown | InsertFails

text \<open>
  \<open>page\<close> is what \<^verbatim>\<open>re.findall\<close> with the running script's link pattern returns on the
  body of the Payment Standards page; \<open>catalog\<close> is the reply of the catalog's
  \<^verbatim>\<open>package_show\<close>; \<open>fetch\<close> is a GET of an artifact and \<open>parse_csv\<close> is
  \<^verbatim>\<open>pd.read_csv\<close> on its text (\<open>None\<close> when it raises); \<open>disk_ok\<close> says whether a
  file can be opened and written; \<open>now\<close> is \<^verbatim>\<open>datetime.now().isoformat()\<close> and
  \<open>timestamp\<close> its \<^verbatim>\<open>strftime\<close> form (one reading of the clock stands for the
  successive readings of a run); \<open>raises\<close> says whether a statement inside the
  \<^verbatim>\<open>try\<close> block of \<^verbatim>\<open>transform_data\<close> raises.
\<close>

datatype jstr = Missing | Null | Str string

record resource =
  format :: jstr
  created :: jstr
  resource_url :: jstr

record package_show =
  success :: bool
  resources :: "resource list"

record world =
  page :: "string list http"
  catalog :: "package_show http"
  fetch :: "string \<Rightarrow> string http"
  parse_csv :: "string \<Rightarrow> dataframe option"
  disk_ok :: "string \<Rightarrow> bool"
  db :: db_fault
  now :: string
  timestamp :: string
  raises :: bool

text \<open>
  The marker file \<^verbatim>\<open>current_year.txt\<close>: absent, holding text that \<^verbatim>\<open>int\<close> reads as a year
  (what \<^verbatim>\<open>f.write(str(year))\<close> leaves), or holding text on which \<^verbatim>\<open>int\<close> raises. It is
  kept apart from the other files of the data directory, which are the downloaded
  artifacts and the CSV and JSON copies; the table \<open>rents\<close> is the relational table.
\<close>

datatype marker = Stored int | Unreadable

datatype file_content =
    Raw string
  | Csv dataframe
  | Json "(string \<times> cell) list" "(string \<times> cell) list list"

type_synonym table = "(string \<times> cell) list list"

record state =
  current_year_txt :: "marker option"
  rents :: table
  data_files :: "string \<rightharpoonup> file_content"

definition data_dir :: string where
  "data_dir = ''/opt/rent-api/data''"

definition base_url :: string where
  "base_url = ''https://www.bostonhousing.org''"

text \<open>
  SQL \<^verbatim>\<open>LIKE\<close> as the database evaluates it: \<^verbatim>\<open>%\<close> stands for any run of characters,
  \<^verbatim>\<open>_\<close> for one character, everything else for itself. A row whose \<^verbatim>\<open>source\<close> is not a
  string does not match.
\<close>

fun like :: "string \<Rightarrow> string \<Rightarrow> bool" where
  "like [] s = (s = [])"
| "like (p # ps) [] = (p = CHR ''%'' \<and> like ps [])"
| "like (p # ps) (c # cs) =
     (if p = CHR ''%'' then like ps (c # cs) \<or> like (p # ps) cs
      else (p = CHR ''_'' \<or> p = c) \<and> like ps cs)"

definition source_like :: "string \<Rightarrow> (string \<times> cell) list \<Rightarrow> bool" where
  "source_like pattern r =
     (case map_of r ''source'' of Some (Text s) \<Rightarrow> like pattern s | _ \<Rightarrow> False)"

definition delete_where_source_like :: "string \<Rightarrow> table \<Rightarrow> table" where
  "delete_where_source_like pattern t = filter (\<lambda>r. \<not> source_like pattern r) t"

section \<open>What three of the scripts share word for word\<close>

text \<open>
  \<^verbatim>\<open>save_to_database\<close> of the fixed-2025, catalog and page-scan scripts: one
  \<^verbatim>\<open>to_sql(..., if_exists='append')\<close>, and \<^verbatim>\<open>False\<close> from the handler when it raises.
\<close>

definition save_to_database :: "world \<Rightarrow> dataframe \<Rightarrow> state \<Rightarrow> bool \<times> state" where
  "save_to_database w df s =
     (case db w of
        DbOk \<Rightarrow> (True, s\<lparr>rents := rents s @ to_records df\<rparr>)
      | _ \<Rightarrow> (False, s))"

text \<open>\<^verbatim>\<open>save_to_csv\<close> with a file name given: the path, or the empty string from the handler.\<close>

definition save_to_csv :: "world \<Rightarrow> dataframe \<Rightarrow> string \<Rightarrow> state \<Rightarrow> string \<times> state" where
  "save_to_csv w df name s =
     (let filepath = path_join data_dir name
      in if disk_ok w filepath
         then (filepath, s\<lparr>data_files := (data_files s)(filepath \<mapsto> Csv df)\<rparr>)
         else ([], s))"

text \<open>The column renaming of both PDF extractions, and one dictionary of their built-in lists.\<close>

definition schema :: "(string \<times> string) list" where
  "schema =
     [(''city'', ''town''), (''zip'', ''zip_code''), (''0_br'', ''studio_rent''),
      (''1br'', ''one_br_rent''), (''2br'', ''two_br_rent''), (''3br'', ''three_br_rent''),
      (''4br'', ''four_br_rent''), (''5br'', ''five_br_rent''), (''6br'', ''six_br_rent'')]"

definition rent_row ::
  "string \<Rightarrow> string \<Rightarrow> int \<Rightarrow> int \<Rightarrow> int \<Rightarrow> int \<Rightarrow> int \<Rightarrow> int \<Rightarrow> int \<Rightarrow> (string \<times> cell) list" where
  "rent_row city zipcode b0 b1 b2 b3 b4 b5 b6 =
     [(''city'', Text city), (''zip'', Text zipcode), (''0_br'', Num b0), (''1br'', Num b1),
      (''2br'', Num b2), (''3br'', Num b3), (''4br'', Num b4), (''5br'', Num b5),
      (''6br'', Num b6)]"

section \<open>bha-payment-standards-future.py\<close>

record file_info =
  url :: string
  year :: int
  filename :: string

text \<open>The three-way branch that turns a link into an absolute URL (the same in both page scans).\<close>

definition full_url :: "string \<Rightarrow> string" where
  "full_url match =
     (if startswith match ''/'' then base_url @ match
      else if startswith match ''http'' then match
      else base_url @ ''/'' @ match)"

text \<open>The loop over the matches: a link with no four-digit run adds nothing.\<close>

fun available_files :: "string list \<Rightarrow> file_info list" where
  "available_files [] = []"
| "available_files (match # matches) =
     (case search_d4 match of
        Some y \<Rightarrow>
          \<lparr>url = full_url match, year = int_of_digits y, filename = split_last match\<rparr>
            # available_files matches
      | None \<Rightarrow> available_files matches)"

definition find_latest_payment_standards :: "world \<Rightarrow> file_info option" where
  "find_latest_payment_standards w =
     (case page w of
        Response matches \<Rightarrow>
          (if available_files matches = [] then None
           else py_max year (available_files matches))
      | _ \<Rightarrow> None)"

definition download_payment_standards_pdf_future ::
  "world \<Rightarrow> file_info \<Rightarrow> state \<Rightarrow> string option \<times> state" where
  "download_payment_standards_pdf_future w file_info s =
     (case fetch w (url file_info) of
        Response content \<Rightarrow>
          (let filepath = path_join data_dir (filename file_info)
           in if disk_ok w filepath
              then (Some filepath, s\<lparr>data_files := (data_files s)(filepath \<mapsto> Raw content)\<rparr>)
              else (None, s))
      | _ \<Rightarrow> (None, s))"

definition rent_data_future :: "(string \<times> cell) list list" where
  "rent_data_future =
     [rent_row ''Boston'' ''02108'' 3266 3450 4100 4950 5450 6250 7000,
      rent_row ''Boston'' ''02109'' 3486 3749 4452 5387 5933 6822 7713,
      rent_row ''Boston'' ''02110'' 3486 3749 4452 5387 5933 6822 7713]"

definition source_label :: "int \<Rightarrow> string" where
  "source_label yr = ''BHA '' @ str_int yr @ '' Payment Standards''"

definition extract_rent_data_from_pdf_future ::
  "world \<Rightarrow> string \<Rightarrow> int \<Rightarrow> dataframe option" where
  "extract_rent_data_from_pdf_future w pdf_path yr =
     Some (set_column ''updated_at'' (Text (now w))
          (set_column ''effective_year'' (Num yr)
          (set_column ''source'' (Text (source_label yr))
          (set_column ''county'' (Text ''Suffolk'')
          (rename schema (DataFrame rent_data_future))))))"

text \<open>
  The delete is committed on its own before the insert, so a failing insert leaves the
  table without the deleted rows.
\<close>

definition save_to_database_future :: "world \<Rightarrow> dataframe \<Rightarrow> state \<Rightarrow> bool \<times> state" where
  "save_to_database_future w df s =
     (case db w of
        DbDown \<Rightarrow> (False, s)
      | InsertFails \<Rightarrow>
          (False, s\<lparr>rents := delete_where_source_like ''BHA % Payment Standards'' (rents s)\<rparr>)
      | DbOk \<Rightarrow>
          (True, s\<lparr>rents := delete_where_source_like ''BHA % Payment Standards'' (rents s)
                               @ to_records df\<rparr>))"

definition save_to_csv_future :: "world \<Rightarrow> dataframe \<Rightarrow> int \<Rightarrow> state \<Rightarrow> string \<times> state" where
  "save_to_csv_future w df yr s =
     (let filepath = path_join data_dir (''bha_'' @ str_int yr @ ''_payment_standards.csv'')
      in if disk_ok w filepath
         then (filepath, s\<lparr>data_files := (data_files s)(filepath \<mapsto> Csv df)\<rparr>)
         else ([], s))"

definition save_to_json_future :: "world \<Rightarrow> dataframe \<Rightarrow> int \<Rightarrow> state \<Rightarrow> string \<times> state" where
  "save_to_json_future w df yr s =
     (let filepath = path_join data_dir (''bha_'' @ str_int yr @ ''_payment_standards.json'');
          json_data = Json [(''source'', Text (source_label yr)),
                            (''effective_date'', Text (str_int yr @ ''-07-01'')),
                            (''updated_at'', Text (now w)),
                            (''year'', Num yr)] (to_records df)
      in if disk_ok w filepath
         then (filepath, s\<lparr>data_files := (data_files s)(filepath \<mapsto> json_data)\<rparr>)
         else ([], s))"

definition check_for_updates :: "world \<Rightarrow> state \<Rightarrow> bool" where
  "check_for_updates w s =
     (case current_year_txt s of
        Some Unreadable \<Rightarrow> False
      | Some (Stored current_year) \<Rightarrow>
          (case find_latest_payment_standards w of
             None \<Rightarrow> False
           | Some latest_file \<Rightarrow> current_year < year latest_file)
      | None \<Rightarrow>
          (case find_latest_payment_standards w of
             None \<Rightarrow> False
           | Some latest_file \<Rightarrow> True))"

text \<open>
  The three saves run one after the other and their results are dropped; then the marker
  is written, and a failure to write it is the only thing left that can end the run in
  the handler.
\<close>

definition run_full_pipeline_future :: "world \<Rightarrow> state \<Rightarrow> bool \<times> state" where
  "run_full_pipeline_future w s =
     (case find_latest_payment_standards w of
        None \<Rightarrow> (False, s)
      | Some latest_file \<Rightarrow>
          (case download_payment_standards_pdf_future w latest_file s of
             (None, s1) \<Rightarrow> (False, s1)
           | (Some pdf_path, s1) \<Rightarrow>
               (case extract_rent_data_from_pdf_future w pdf_path (year latest_file) of
                  None \<Rightarrow> (False, s1)
                | Some rent_data \<Rightarrow>
                    (let s2 = snd (save_to_csv_future w rent_data (year latest_file) s1);
                         s3 = snd (save_to_json_future w rent_data (year latest_file) s2);
                         s4 = snd (save_to_database_future w rent_data s3)
                     in if disk_ok w (path_join data_dir ''current_year.txt'')
                        then (True, s4\<lparr>current_year_txt := Some (Stored (year latest_file))\<rparr>)
                        else (False, s4)))))"

section \<open>bha-2025-payment-standards.py\<close>

definition pdf_url :: string where
  "pdf_url = ''https://www.bostonhousing.org/BHA/media/Documents/Leased%20Housing/SAFMRs/2025-Payment-Standards-All-BR.pdf''"

definition download_payment_standards_pdf_2025 :: "world \<Rightarrow> state \<Rightarrow> string option \<times> state" where
  "download_payment_standards_pdf_2025 w s =
     (case fetch w pdf_url of
        Response content \<Rightarrow>
          (let filepath = path_join data_dir ''2025-Payment-Standards-All-BR.pdf''
           in if disk_ok w filepath
              then (Some filepath, s\<lparr>data_files := (data_files s)(filepath \<mapsto> Raw content)\<rparr>)
              else (None, s))
      | _ \<Rightarrow> (None, s))"

definition rent_data_2025 :: "(string \<times> cell) list list" where
  "rent_data_2025 =
     [rent_row ''Abington'' ''02351'' 1450 1520 1980 2509 2714 3120 3527,
      rent_row ''Acton'' ''01720'' 2323 2496 2969 3589 3954 4546 5139,
      rent_row ''Acushnet'' ''02743'' 1136 1236 1521 1833 2193 2522 2850,
      rent_row ''Amesbury'' ''01913'' 2323 2496 2969 3589 3954 4546 5139,
      rent_row ''Andover'' ''01810'' 1796 2058 2657 3224 3539 4069 4601,
      rent_row ''Arlington'' ''02474'' 2468 2646 3150 3812 4200 4830 5460,
      rent_row ''Arlington'' ''02476'' 2323 2496 2969 3589 3954 4546 5139,
      rent_row ''Ashland'' ''01721'' 2375 2552 3035 3669 4042 4647 5254,
      rent_row ''Attleboro'' ''02703'' 1502 1610 1974 2384 2870 3406 3750,
      rent_row ''Avon'' ''02322'' 1461 1561 2050 2600 2913 3350 3787,
      rent_row ''Ayer'' ''01432'' 2102 2259 2686 3248 3578 4114 4650,
      rent_row ''Bedford'' ''01730'' 2646 2846 3381 4085 4505 5180 5856,
      rent_row ''Bellingham'' ''02019'' 2102 2259 2686 3248 3578 4114 4650,
      rent_row ''Belmont'' ''02478'' 2699 2909 3455 4180 4600 5290 5980,
      rent_row ''Berkley'' ''02779'' 1418 1569 2058 2607 2729 3138 3548,
      rent_row ''Beverly'' ''01915'' 2324 2497 2969 3590 3955 4547 5140,
      rent_row ''Billerica'' ''01821'' 1400 1560 2020 2434 2678 3079 3481,
      rent_row ''Bolton'' ''01740'' 1649 1796 2268 2993 3381 3889 4396,
      rent_row ''Boston'' ''02109'' 3486 3749 4452 5387 5933 6822 7713,
      rent_row ''Boston - Allston'' ''02134'' 2426 2607 3100 3749 4129 4748 5367,
      rent_row ''Boston - Back Bay'' ''02116'' 3455 3718 4421 5346 5892 6775 7659,
      rent_row ''Boston - Beacon Hill'' ''02108'' 3266 3450 4100 4950 5450 6250 7000,
      rent_row ''Boston - Brighton'' ''02135'' 2560 2750 3270 3950 4350 5002 5655,
      rent_row ''Boston - Charlestown'' ''02129'' 2920 3140 3730 4510 4970 5715 6461,
      rent_row ''Boston - Chinatown'' ''02111'' 3030 3250 3870 4680 5150 5922 6695,
      rent_row ''Boston - Dorchester'' ''02122'' 2212 2377 2827 3418 3765 4329 4894,
      rent_row ''Boston - Dorchester'' ''02124'' 2212 2377 2827 3418 3765 4329 4894,
      rent_row ''Boston - Dorchester'' ''02125'' 2212 2377 2827 3418 3765 4329 4894,
      rent_row ''Boston - Dorchester / Roxbury'' ''02121'' 2212 2377 2827 3418 3765 4329 4894,
      rent_row ''Boston - Downtown'' ''02199'' 3486 3749 4452 5387 5933 6822 7713,
      rent_row ''Boston - East Boston'' ''02128'' 2212 2377 2827 3418 3765 4329 4894,
      rent_row ''Boston - Fenway'' ''02115'' 2426 2607 3100 3749 4129 4748 5367,
      rent_row ''Boston - Financial Disctrict'' ''02110'' 3486 3749 4452 5387 5933 6822 7713,
      rent_row ''Boston - Harvard Business'' ''02163'' 3210 3450 4130 4960 5460 6279 7098,
      rent_row ''Boston - Hyde Park'' ''02136'' 2324 2497 2969 3590 3955 4547 5140,
      rent_row ''Boston - Jamaica Plain'' ''02130'' 2500 2680 3190 3860 4250 4887 5525,
      rent_row ''Boston - Kenmore'' ''02215'' 2950 3170 3770 4560 5020 5773 6526,
      rent_row ''Boston - Mattapan'' ''02126'' 2212 2377 2827 3418 3765 4329 4894]"

definition extract_rent_data_from_pdf_2025 :: "world \<Rightarrow> string \<Rightarrow> dataframe option" where
  "extract_rent_data_from_pdf_2025 w pdf_path =
     Some (set_column ''updated_at'' (Text (now w))
          (set_column ''source'' (Text ''BHA 2025 Payment Standards'')
          (set_column ''county'' (Text ''Suffolk'')
          (rename schema (DataFrame rent_data_2025)))))"

definition save_to_json_2025 :: "world \<Rightarrow> dataframe \<Rightarrow> string \<Rightarrow> state \<Rightarrow> string \<times> state" where
  "save_to_json_2025 w df name s =
     (let filepath = path_join data_dir name;
          json_data = Json [(''source'', Text ''BHA 2025 Payment Standards''),
                            (''effective_date'', Text ''2025-07-01''),
                            (''updated_at'', Text (now w))] (to_records df)
      in if disk_ok w filepath
         then (filepath, s\<lparr>data_files := (data_files s)(filepath \<mapsto> json_data)\<rparr>)
         else ([], s))"

definition run_full_pipeline_2025 :: "world \<Rightarrow> state \<Rightarrow> bool \<times> state" where
  "run_full_pipeline_2025 w s =
     (case download_payment_standards_pdf_2025 w s of
        (None, s1) \<Rightarrow> (False, s1)
      | (Some pdf_path, s1) \<Rightarrow>
          (case extract_rent_data_from_pdf_2025 w pdf_path of
             None \<Rightarrow> (False, s1)
           | Some rent_data \<Rightarrow>
               (let s2 = snd (save_to_csv w rent_data ''bha_2025_payment_standards.csv'' s1);
                    s3 = snd (save_to_json_2025 w rent_data ''bha_2025_payment_standards.json'' s2);
                    s4 = snd (save_to_database w rent_data s3)
                in (True, s4))))"

section \<open>bha-data-integration.py\<close>

text \<open>
  \<^verbatim>\<open>r.get(k, "")\<close> on a JSON object: the empty string for a missing key, Python's
  \<^verbatim>\<open>None\<close> for a JSON null, the string otherwise. \<^verbatim>\<open>upper\<close> is taken on ASCII letters.
\<close>

definition get_or_empty :: "jstr \<Rightarrow> string option" where
  "get_or_empty j = (case j of Missing \<Rightarrow> Some [] | Null \<Rightarrow> None | Str s \<Rightarrow> Some s)"

definition upper_char :: "char \<Rightarrow> char" where
  "upper_char c =
     (if CHR ''a'' \<le> c \<and> c \<le> CHR ''z'' then char_of (of_char c - (32::nat)) else c)"

definition upper :: "string \<Rightarrow> string" where
  "upper s = map upper_char s"

text \<open>
  The result dictionary of the catalog is stood for by its resource list; the empty
  dictionary the handler and the failure branch return is \<open>None\<close>.
\<close>

definition get_dataset_info :: "world \<Rightarrow> resource list option" where
  "get_dataset_info w =
     (case catalog w of
        Response data \<Rightarrow> (if success data then Some (resources data) else None)
      | _ \<Rightarrow> None)"

text \<open>The list comprehension: \<^verbatim>\<open>.upper()\<close> on \<^verbatim>\<open>None\<close> raises, which is \<open>None\<close> here.\<close>

fun csv_resources :: "resource list \<Rightarrow> resource list option" where
  "csv_resources [] = Some []"
| "csv_resources (r # rs) =
     (case get_or_empty (format r) of
        None \<Rightarrow> None
      | Some f \<Rightarrow>
          (case csv_resources rs of
             None \<Rightarrow> None
           | Some rest \<Rightarrow> Some (if upper f = ''CSV'' then r # rest else rest)))"

text \<open>
  \<^verbatim>\<open>max(csv_resources, key=lambda x: x.get("created", ""))\<close>: a comparison in which one
  key is \<^verbatim>\<open>None\<close> raises \<^verbatim>\<open>TypeError\<close>.
\<close>

fun max_created :: "resource \<Rightarrow> resource list \<Rightarrow> resource option" where
  "max_created best [] = Some best"
| "max_created best (x # xs) =
     (case (get_or_empty (created best), get_or_empty (created x)) of
        (Some kb, Some kx) \<Rightarrow> (if kb < kx then max_created x xs else max_created best xs)
      | _ \<Rightarrow> None)"

definition get_latest_csv_url :: "world \<Rightarrow> string option" where
  "get_latest_csv_url w =
     (case get_dataset_info w of
        None \<Rightarrow> None
      | Some rs \<Rightarrow>
          (case csv_resources rs of
             None \<Rightarrow> None
           | Some [] \<Rightarrow> None
           | Some (r # rest) \<Rightarrow>
               (case max_created r rest of
                  None \<Rightarrow> None
                | Some latest_resource \<Rightarrow>
                    (case resource_url latest_resource of Str u \<Rightarrow> Some u | _ \<Rightarrow> None))))"

definition download_csv_data :: "world \<Rightarrow> string \<Rightarrow> dataframe option" where
  "download_csv_data w csv_url =
     (case fetch w csv_url of Response body \<Rightarrow> parse_csv w body | _ \<Rightarrow> None)"

text \<open>
  The copy is what gets the two columns; the handler returns the argument itself. The
  column mapping of the source is the empty dictionary, so the renaming branch is dead.
\<close>

definition transform_data :: "world \<Rightarrow> dataframe \<Rightarrow> dataframe" where
  "transform_data w df =
     (if raises w then df
      else
        (let transformed_df =
               set_column ''updated_at'' (Text (now w)) (set_column ''source'' (Text ''BHA'') df);
             column_mapping = ([] :: (string \<times> string) list)
         in if column_mapping \<noteq> [] then rename column_mapping transformed_df
            else transformed_df))"

definition run_full_pipeline_data :: "world \<Rightarrow> state \<Rightarrow> bool \<times> state" where
  "run_full_pipeline_data w s =
     (case get_latest_csv_url w of
        None \<Rightarrow> (False, s)
      | Some csv_url \<Rightarrow>
          (if csv_url = [] then (False, s)
           else
             (case download_csv_data w csv_url of
                None \<Rightarrow> (False, s)
              | Some df \<Rightarrow>
                  (let transformed_df = transform_data w df;
                       s1 = snd (save_to_csv w transformed_df
                                  (''bha_rent_data_'' @ timestamp w @ ''.csv'') s);
                       saved = save_to_database w transformed_df s1
                   in if fst saved then (True, snd saved) else (False, snd saved)))))"

section \<open>bha-rent-data-integration.py\<close>

record pdf_link =
  url' :: string
  filename' :: string
  year' :: string
  bedrooms :: "string option"
  type' :: string

text \<open>
  \<^verbatim>\<open>re.search(r'(\d+)-BR|(\d+)-Bedroom', filename)\<close>: the leftmost run of digits that is
  followed by one of the two words. Group 1 is \<^verbatim>\<open>None\<close> when the second word matched.
\<close>

fun search_bedrooms :: "string \<Rightarrow> string option option" where
  "search_bedrooms [] = None"
| "search_bedrooms (c # cs) =
     (let ds = takeWhile is_digit (c # cs); rest = dropWhile is_digit (c # cs)
      in if ds \<noteq> [] \<and> startswith rest ''-BR'' then Some (Some ds)
         else if ds \<noteq> [] \<and> startswith rest ''-Bedroom'' then Some None
         else search_bedrooms cs)"

fun pdf_links :: "string list \<Rightarrow> pdf_link list" where
  "pdf_links [] = []"
| "pdf_links (match # matches) =
     (if contains match ''Payment-Standards'' \<or> contains match ''SAFMRs''
      then \<lparr>url' = full_url match,
            filename' = split_last match,
            year' = (case search_d4 (split_last match) of Some y \<Rightarrow> y | None \<Rightarrow> ''Unknown''),
            bedrooms = (case search_bedrooms (split_last match) of
                          Some g \<Rightarrow> g | None \<Rightarrow> Some ''All''),
            type' = ''Payment Standards''\<rparr> # pdf_links matches
      else pdf_links matches)"

definition get_payment_standards_files :: "world \<Rightarrow> pdf_link list" where
  "get_payment_standards_files w =
     (case page w of Response matches \<Rightarrow> pdf_links matches | _ \<Rightarrow> [])"

text \<open>The key of \<^verbatim>\<open>max\<close> is the year as a string, so the comparison is that of strings.\<close>

definition get_latest_payment_standards :: "world \<Rightarrow> string option" where
  "get_latest_payment_standards w =
     (let pdf_files = get_payment_standards_files w
      in if pdf_files = [] then None else map_option url' (py_max year' pdf_files))"

definition download_payment_standards :: "world \<Rightarrow> string \<Rightarrow> state \<Rightarrow> string option \<times> state" where
  "download_payment_standards w link s =
     (case fetch w link of
        Response content \<Rightarrow>
          (let filepath = path_join data_dir (split_last link)
           in if disk_ok w filepath
              then (Some filepath, s\<lparr>data_files := (data_files s)(filepath \<mapsto> Raw content)\<rparr>)
              else (None, s))
      | _ \<Rightarrow> (None, s))"

definition extract_rent_data_from_pdf_rent :: "world \<Rightarrow> string \<Rightarrow> dataframe option" where
  "extract_rent_data_from_pdf_rent w pdf_path =
     Some (DataFrame_of_columns
       [(''zip_code'', map Text [''02108'', ''02109'', ''02110'', ''02111'', ''02113'']),
        (''town'', map Text [''Boston'', ''Boston'', ''Boston'', ''Boston'', ''Boston'']),
        (''county'', map Text [''Suffolk'', ''Suffolk'', ''Suffolk'', ''Suffolk'', ''Suffolk'']),
        (''studio_rent'', map Num [1800, 1850, 1900, 1750, 1950]),
        (''one_br_rent'', map Num [2100, 2150, 2200, 2050, 2250]),
        (''two_br_rent'', map Num [2500, 2550, 2600, 2450, 2650]),
        (''three_br_rent'', map Num [3000, 3050, 3100, 2950, 3150]),
        (''four_br_rent'', map Num [3500, 3550, 3600, 3450, 3650]),
        (''five_br_rent'', map Num [4000, 4050, 4100, 3950, 4150]),
        (''six_br_rent'', map Num [4500, 4550, 4600, 4450, 4650]),
        (''source'', replicate 5 (Text ''BHA Payment Standards'')),
        (''updated_at'', replicate 5 (Text (now w)))])"

definition get_rent_estimator_data :: "world \<Rightarrow> dataframe option" where
  "get_rent_estimator_data w =
     Some (DataFrame_of_columns
       [(''zip_code'', map Text [''02108'', ''02109'', ''02110'', ''02111'', ''02113'']),
        (''town'', map Text [''Boston'', ''Boston'', ''Boston'', ''Boston'', ''Boston'']),
        (''county'', map Text [''Suffolk'', ''Suffolk'', ''Suffolk'', ''Suffolk'', ''Suffolk'']),
        (''studio_rent'', map Num [1750, 1800, 1850, 1700, 1900]),
        (''one_br_rent'', map Num [2050, 2100, 2150, 2000, 2200]),
        (''two_br_rent'', map Num [2450, 2500, 2550, 2400, 2600]),
        (''three_br_rent'', map Num [2950, 3000, 3050, 2900, 3100]),
        (''four_br_rent'', map Num [3450, 3500, 3550, 3400, 3600]),
        (''five_br_rent'', map Num [3950, 4000, 4050, 3900, 4100]),
        (''six_br_rent'', map Num [4450, 4500, 4550, 4400, 4600]),
        (''source'', replicate 5 (Text ''BHA Rent Estimator'')),
        (''updated_at'', replicate 5 (Text (now w)))])"

text \<open>
  The Payment Standards stage is a nest of conditions with no \<^verbatim>\<open>else\<close>; whatever it
  did, the Rent Estimator stage follows, and the run returns \<^verbatim>\<open>True\<close>.
\<close>

definition payment_standards_stage :: "world \<Rightarrow> state \<Rightarrow> state" where
  "payment_standards_stage w s =
     (case get_latest_payment_standards w of
        None \<Rightarrow> s
      | Some latest_pdf_url \<Rightarrow>
          (if latest_pdf_url = [] then s
           else
             (case download_payment_standards w latest_pdf_url s of
                (None, s1) \<Rightarrow> s1
              | (Some pdf_path, s1) \<Rightarrow>
                  (case extract_rent_data_from_pdf_rent w pdf_path of
                     None \<Rightarrow> s1
                   | Some pdf_data \<Rightarrow>
                       snd (save_to_database w pdf_data
                             (snd (save_to_csv w pdf_data ''bha_payment_standards.csv'' s1)))))))"

definition rent_estimator_stage :: "world \<Rightarrow> state \<Rightarrow> state" where
  "rent_estimator_stage w s =
     (case get_rent_estimator_data w of
        None \<Rightarrow> s
      | Some estimator_data \<Rightarrow>
          snd (save_to_database w estimator_data
                (snd (save_to_csv w estimator_data ''bha_rent_estimator.csv'' s))))"

definition run_full_pipeline_rent :: "world \<Rightarrow> state \<Rightarrow> bool \<times> state" where
  "run_full_pipeline_rent w s =
     (True, rent_estimator_stage w (payment_standards_stage w s))"

section \<open>Concrete inputs\<close>

text \<open>
  A state with nothing stored, a state whose marker holds a year, a world in which every
  request and every write succeeds and the page shows the given links, and the same
  world with the network down.
\<close>

definition two_links :: "string list" where
  "two_links = [''/docs/2024-Payment-Standards.pdf'', ''/docs/2025-Payment-Standards.pdf'']"

definition fresh :: state where
  "fresh = \<lparr>current_year_txt = None, rents = [], data_files = Map.empty\<rparr>"

definition marked :: "int \<Rightarrow> state" where
  "marked y = \<lparr>current_year_txt = Some (Stored y), rents = [], data_files = Map.empty\<rparr>"

definition online :: "string list \<Rightarrow> db_fault \<Rightarrow> world" where
  "online links fault =
     \<lparr>page = Response links,
      catalog = Response \<lparr>success = True, resources = []\<rparr>,
      fetch = (\<lambda>u. Response ''%PDF-1.7''),
      parse_csv = (\<lambda>body. None),
      disk_ok = (\<lambda>path. True),
      db = fault,
      now = ''2025-07-01T09:00:00'',
      timestamp = ''20250701_090000'',
      raises = False\<rparr>"


text \<open>
  The columns that carry the locality, the postal code and the seven rents; a table as
  \<^verbatim>\<open>read_csv\<close> may deliver it, whose first row lacks the postal code and every rent and
  whose second row has a word where the two-bedroom rent should be; and a table that
  already has a \<^verbatim>\<open>source\<close> column.
\<close>

definition rent_columns :: "string list" where
  "rent_columns =
     [''town'', ''zip_code'', ''studio_rent'', ''one_br_rent'', ''two_br_rent'',
      ''three_br_rent'', ''four_br_rent'', ''five_br_rent'', ''six_br_rent'']"


definition labelled_table :: dataframe where
  "labelled_table =
     DataFrame_of_columns [(''zip_code'', [Text ''02108'']), (''source'', [Text ''HUD''])]"

section \<open>Facts about tables and about \<^verbatim>\<open>max\<close>\<close>

lemma nrows_set_column [simp]: "nrows (set_column c v df) = nrows df"
  by (simp add: set_column_def)

lemma nrows_rename [simp]: "nrows (rename m df) = nrows df"
  by (simp add: rename_def)

lemma nrows_DataFrame [simp]: "nrows (DataFrame recs) = length recs"
  by (simp add: DataFrame_def)

lemma column_set_column:
  "column (set_column c v df) k = (if k = c then Some (replicate (nrows df) v) else column df k)"
  by (simp add: column_def set_column_def update_conv')

lemma names_set_column:
  "map fst (columns (set_column c v df)) =
     (if c \<in> set (map fst (columns df)) then map fst (columns df)
      else map fst (columns df) @ [c])"
  by (simp add: set_column_def update_keys)

lemma length_to_records [simp]: "length (to_records df) = nrows df"
  by (simp add: to_records_def)


lemma max_from_mem: "max_from key b xs \<in> set (b # xs)"
  by (induction xs arbitrary: b) auto

lemma max_from_self: "key b \<le> key (max_from key b xs)"
proof (induction xs arbitrary: b)
  case Nil
  then show ?case by simp
next
  case (Cons a xs)
  show ?case
  proof (cases "key b < key a")
    case True
    then have "key b \<le> key a" by simp
    also have "key a \<le> key (max_from key a xs)" by (rule Cons.IH)
    finally show ?thesis using True by simp
  next
    case False
    then show ?thesis using Cons.IH[of b] by simp
  qed
qed

lemma max_from_ge: "x \<in> set xs \<Longrightarrow> key x \<le> key (max_from key b xs)"
proof (induction xs arbitrary: b)
  case Nil
  then show ?case by simp
next
  case (Cons a xs)
  show ?case
  proof (cases "x = a")
    case True
    show ?thesis
    proof (cases "key b < key a")
      case True
      then show ?thesis using \<open>x = a\<close> max_from_self[of key a xs] by simp
    next
      case False
      then have "key a \<le> key b" by simp
      also have "key b \<le> key (max_from key b xs)" by (rule max_from_self)
      finally show ?thesis using False \<open>x = a\<close> by simp
    qed
  next
    case False
    with Cons.prems have "x \<in> set xs" by simp
    then show ?thesis using Cons.IH by simp
  qed
qed

text \<open>First seen: everything before the chosen element has a strictly smaller key.\<close>

lemma max_from_first:
  "\<exists>pre post. b # xs = pre @ max_from key b xs # post
      \<and> (\<forall>x \<in> set pre. key x < key (max_from key b xs))"
proof (induction xs arbitrary: b)
  case Nil
  show ?case by (rule exI[of _ "[]"]) simp
next
  case (Cons a xs)
  show ?case
  proof (cases "key b < key a")
    case True
    define m where "m = max_from key a xs"
    have step: "max_from key b (a # xs) = m"
      using True by (simp add: m_def)
    from Cons.IH[of a] obtain pre post where
      s: "a # xs = pre @ m # post" and l: "\<forall>x \<in> set pre. key x < key m"
      unfolding m_def by blast
    have "key b < key m"
      using True max_from_self[of key a xs] unfolding m_def by (rule less_le_trans)
    with l have "\<forall>x \<in> set (b # pre). key x < key m" by simp
    moreover have "b # a # xs = (b # pre) @ m # post"
      by (simp only: s append_Cons)
    ultimately show ?thesis unfolding step by blast
  next
    case False
    define m where "m = max_from key b xs"
    have step: "max_from key b (a # xs) = m"
      using False by (simp add: m_def)
    from Cons.IH[of b] obtain pre post where
      s: "b # xs = pre @ m # post" and l: "\<forall>x \<in> set pre. key x < key m"
      unfolding m_def by blast
    show ?thesis
    proof (cases pre)
      case Nil
      with s have "b = m" by simp
      then have "b # a # xs = [] @ m # (a # xs)" by simp
      moreover have "\<forall>x \<in> set []. key x < key m" by simp
      ultimately show ?thesis unfolding step by blast
    next
      case (Cons p pre')
      with s have pb: "p = b" and xs: "xs = pre' @ m # post" by simp_all
      have bm: "key b < key m" using l Cons pb by simp
      have "key a \<le> key b" using False by simp
      then have am: "key a < key m" using bm by (rule le_less_trans)
      have "b # a # xs = (b # a # pre') @ m # post"
        by (subst xs) simp
      moreover have "\<forall>x \<in> set (b # a # pre'). key x < key m"
        using l Cons bm am by simp
      ultimately show ?thesis unfolding step by blast
    qed
  qed
qed


lemmas scan_defs =
  find_latest_payment_standards_def py_max_def is_digit_def int_of_digits_def digit_val_def
  full_url_def startswith_def base_url_def split_last_def online_def two_links_def

lemmas run_defs =
  run_full_pipeline_future_def download_payment_standards_pdf_future_def
  extract_rent_data_from_pdf_future_def save_to_csv_future_def save_to_json_future_def
  save_to_database_future_def path_join_def data_dir_def

section \<open>What each save leaves in the relational table\<close>

lemma rents_save_to_csv [simp]: "rents (snd (save_to_csv w df n s)) = rents s"
  by (simp add: save_to_csv_def Let_def)

lemma rents_save_to_json_2025 [simp]: "rents (snd (save_to_json_2025 w df n s)) = rents s"
  by (simp add: save_to_json_2025_def Let_def)

lemma rents_save_to_csv_future [simp]: "rents (snd (save_to_csv_future w df y s)) = rents s"
  by (simp add: save_to_csv_future_def Let_def)

lemma rents_save_to_json_future [simp]: "rents (snd (save_to_json_future w df y s)) = rents s"
  by (simp add: save_to_json_future_def Let_def)

lemma rents_save_to_database:
  "rents (snd (save_to_database w df s)) =
     (if db w = DbOk then rents s @ to_records df else rents s)"
  by (simp add: save_to_database_def split: db_fault.splits)

lemma rents_save_to_database_future:
  "rents (snd (save_to_database_future w df s)) =
     (if db w = DbDown then rents s
      else if db w = InsertFails
      then delete_where_source_like ''BHA % Payment Standards'' (rents s)
      else delete_where_source_like ''BHA % Payment Standards'' (rents s) @ to_records df)"
  by (simp add: save_to_database_future_def split: db_fault.splits)

lemma rents_rent_estimator_stage:
  "rents (rent_estimator_stage w s) =
     (if db w = DbOk then rents s @ to_records (the (get_rent_estimator_data w)) else rents s)"
  by (simp add: rent_estimator_stage_def get_rent_estimator_data_def rents_save_to_database)


section \<open>Selection of the latest candidate\<close>

text \<open>
  The year-detecting script picks a candidate whose year no discovered link exceeds
  (\<open>find_latest_greatest\<close>); every candidate before it has a strictly smaller year
  (\<open>find_latest_first\<close>); and a candidate is always a link in which a year was found
  (\<open>available_files_dated\<close>).
\<close>

lemma find_latest_greatest:
  assumes "find_latest_payment_standards w = Some c" and "page w = Response ms"
    and "f \<in> set (available_files ms)"
  shows "year f \<le> year c"
proof -
  obtain a rest where ar: "available_files ms = a # rest"
    using assms(3) by (cases "available_files ms") auto
  then have c: "c = max_from year a rest"
    using assms(1,2) by (simp add: find_latest_payment_standards_def py_max_def)
  from assms(3) ar have "f = a \<or> f \<in> set rest" by simp
  then show ?thesis
    using max_from_self[of year a rest] max_from_ge[of f rest year a] c by auto
qed

lemma find_latest_first:
  assumes "find_latest_payment_standards w = Some c" and "page w = Response ms"
  shows "\<exists>pre post. available_files ms = pre @ c # post \<and> (\<forall>x \<in> set pre. year x < year c)"
proof (cases "available_files ms")
  case Nil
  then show ?thesis using assms by (simp add: find_latest_payment_standards_def)
next
  case (Cons a rest)
  then have "c = max_from year a rest"
    using assms by (simp add: find_latest_payment_standards_def py_max_def)
  then show ?thesis using max_from_first[of a rest year] Cons by simp
qed

lemma available_files_dated:
  "f \<in> set (available_files ms) \<Longrightarrow>
     \<exists>m \<in> set ms. \<exists>y. search_d4 m = Some y \<and> year f = int_of_digits y \<and> url f = full_url m"
  by (induction ms) (auto split: option.splits)

text \<open>
  C1. The page scan of the rent-data script gives a link without a four-digit run the
  year \<^verbatim>\<open>'Unknown'\<close> and compares years as strings. A capital letter sorts after every
  digit, so on a page with a 2025 document and an undated one the undated one is
  returned as the latest. The year-detecting script returns the 2025 document on the
  same links.
\<close>

theorem unknown_year_wins:
  "get_latest_payment_standards
     (online [''/docs/2025-Payment-Standards.pdf'', ''/docs/Payment-Standards-Notice.pdf''] DbOk)
   = Some ''https://www.bostonhousing.org/docs/Payment-Standards-Notice.pdf''
   \<and> map_option url (find_latest_payment_standards
     (online [''/docs/2025-Payment-Standards.pdf'', ''/docs/Payment-Standards-Notice.pdf''] DbOk))
   = Some ''https://www.bostonhousing.org/docs/2025-Payment-Standards.pdf''"
  by (simp add: get_latest_payment_standards_def get_payment_standards_files_def scan_defs)

section \<open>The update check\<close>

text \<open>
  C2. Whenever discovery yields a candidate of year \<open>r\<close>: with no marker file the check
  answers yes, and with a marker holding year \<open>m\<close> it answers yes exactly when \<open>m < r\<close>
  (so an equal year is not ingested again).
\<close>

theorem check_for_updates_gate:
  assumes "find_latest_payment_standards w = Some c"
  shows "(current_year_txt s = None \<longrightarrow> check_for_updates w s)
       \<and> (\<forall>m. current_year_txt s = Some (Stored m) \<longrightarrow>
             (check_for_updates w s \<longleftrightarrow> m < year c))"
  using assms by (simp add: check_for_updates_def)

theorem check_for_updates_gate_witness:
  "find_latest_payment_standards (online two_links DbOk) =
     Some \<lparr>url = ''https://www.bostonhousing.org/docs/2025-Payment-Standards.pdf'',
           year = 2025, filename = ''2025-Payment-Standards.pdf''\<rparr>
   \<and> check_for_updates (online two_links DbOk) fresh
   \<and> check_for_updates (online two_links DbOk) (marked 2024)
   \<and> \<not> check_for_updates (online two_links DbOk) (marked 2025)"
proof -
  have h: "find_latest_payment_standards (online two_links DbOk) =
     Some \<lparr>url = ''https://www.bostonhousing.org/docs/2025-Payment-Standards.pdf'',
           year = 2025, filename = ''2025-Payment-Standards.pdf''\<rparr>"
    by (simp add: scan_defs)
  show ?thesis
    using h check_for_updates_gate[OF h, of fresh]
      check_for_updates_gate[OF h, of "marked 2024"]
      check_for_updates_gate[OF h, of "marked 2025"]
    by (simp add: fresh_def marked_def)
qed

section \<open>The marker across runs\<close>

text \<open>
  Against C3 as stated. The pipeline of the year-detecting script never reads the marker
  and never calls \<open>check_for_updates\<close>. When the page shows only the 2024 document and
  the marker holds 2025, the run succeeds and leaves 2024 in the marker.
\<close>

theorem marker_regresses:
  "fst (run_full_pipeline_future (online [''/docs/2024-Payment-Standards.pdf''] DbOk) (marked 2025))
   \<and> current_year_txt (marked 2025) = Some (Stored 2025)
   \<and> current_year_txt (snd (run_full_pipeline_future
         (online [''/docs/2024-Payment-Standards.pdf''] DbOk) (marked 2025))) = Some (Stored 2024)"
  by (simp add: run_defs scan_defs marked_def Let_def)

text \<open>
  C3, as the code has it. A successful run leaves in the marker the year of the candidate
  it selected, whatever the marker held before, and no dated link of the page has a
  greater year. So the marker does not decrease over a successful run exactly when the
  greatest year on the page is at least the year the marker held.
\<close>

theorem successful_run_stores_selected_year:
  assumes "fst (run_full_pipeline_future w s)"
  shows "\<exists>c. find_latest_payment_standards w = Some c
           \<and> current_year_txt (snd (run_full_pipeline_future w s)) = Some (Stored (year c))
           \<and> (\<forall>ms. page w = Response ms \<longrightarrow>
                 (\<forall>f \<in> set (available_files ms). year f \<le> year c))"
proof -
  from assms obtain c where c: "find_latest_payment_standards w = Some c"
    by (cases "find_latest_payment_standards w") (simp_all add: run_full_pipeline_future_def)
  have "current_year_txt (snd (run_full_pipeline_future w s)) = Some (Stored (year c))"
    using assms c
    by (auto simp: run_defs Let_def split: option.splits prod.splits if_splits http.splits)
  moreover have "\<forall>ms. page w = Response ms \<longrightarrow>
      (\<forall>f \<in> set (available_files ms). year f \<le> year c)"
    using find_latest_greatest[OF c] by blast
  ultimately show ?thesis using c by blast
qed

theorem successful_run_stores_selected_year_witness:
  "fst (run_full_pipeline_future (online two_links DbOk) (marked 2024))
   \<and> current_year_txt (snd (run_full_pipeline_future (online two_links DbOk) (marked 2024)))
       = Some (Stored 2025)"
proof -
  have h: "find_latest_payment_standards (online two_links DbOk) =
     Some \<lparr>url = ''https://www.bostonhousing.org/docs/2025-Payment-Standards.pdf'',
           year = 2025, filename = ''2025-Payment-Standards.pdf''\<rparr>"
    by (simp add: scan_defs)
  have ok: "fst (run_full_pipeline_future (online two_links DbOk) (marked 2024))"
    by (simp add: run_defs scan_defs marked_def Let_def)
  from successful_run_stores_selected_year[OF ok] h ok show ?thesis by auto
qed

text \<open>
  C4. The result of \<^verbatim>\<open>save_to_database\<close> is dropped by the pipeline of the year-detecting
  script. With the database down and no marker yet, the run reports success, the table
  is still empty, and the marker holds 2025.
\<close>

theorem marker_written_after_failed_write:
  "fst (run_full_pipeline_future (online [''/docs/2025-Payment-Standards.pdf''] DbDown) fresh)
   \<and> rents (snd (run_full_pipeline_future
         (online [''/docs/2025-Payment-Standards.pdf''] DbDown) fresh)) = []
   \<and> current_year_txt (snd (run_full_pipeline_future
         (online [''/docs/2025-Payment-Standards.pdf''] DbDown) fresh)) = Some (Stored 2025)"
  by (simp add: run_defs scan_defs fresh_def Let_def)

section \<open>The relational write\<close>








section \<open>What a run reports\<close>

text \<open>
  The catalog script's pipeline is the one that looks at the result of the relational
  write: once it has a table to write, it reports success exactly when the database
  accepted it, whatever became of the CSV copy.
\<close>

lemma run_full_pipeline_data_success:
  "fst (run_full_pipeline_data w s) \<longleftrightarrow>
     (\<exists>u df. get_latest_csv_url w = Some u \<and> u \<noteq> [] \<and> download_csv_data w u = Some df
        \<and> db w = DbOk)"
  by (auto simp: run_full_pipeline_data_def save_to_database_def Let_def
      split: option.splits db_fault.splits)

text \<open>
  C6. The fixed-2025 script and the rent-data script drop the result of
  \<^verbatim>\<open>save_to_database\<close>. With the database down, each of them reports success although
  nothing reached the table.
\<close>

theorem failed_write_reported_as_success:
  "fst (run_full_pipeline_2025 (online [] DbDown) fresh)
   \<and> rents (snd (run_full_pipeline_2025 (online [] DbDown) fresh)) = []
   \<and> fst (run_full_pipeline_rent (online [] DbDown) fresh)
   \<and> rents (snd (run_full_pipeline_rent (online [] DbDown) fresh)) = []"
  by (simp add: run_full_pipeline_2025_def download_payment_standards_pdf_2025_def
      extract_rent_data_from_pdf_2025_def save_to_csv_def save_to_json_2025_def
      save_to_database_def run_full_pipeline_rent_def rent_estimator_stage_def
      payment_standards_stage_def get_latest_payment_standards_def
      get_payment_standards_files_def get_rent_estimator_data_def
      online_def fresh_def Let_def)

section \<open>Discovery that finds nothing\<close>




section \<open>The catalog script's transform\<close>

lemma column_transform_data:
  "\<not> raises w \<Longrightarrow> column (transform_data w df) c =
     (if c = ''updated_at'' then Some (replicate (nrows df) (Text (now w)))
      else if c = ''source'' then Some (replicate (nrows df) (Text ''BHA''))
      else column df c)"
  by (simp add: transform_data_def column_set_column)

lemma nrows_transform_data [simp]: "nrows (transform_data w df) = nrows df"
  by (simp add: transform_data_def)




section \<open>Extraction and the fetched artifact\<close>

lemma rent_columns_2025:
  "map (column (the (extract_rent_data_from_pdf_2025 w p))) rent_columns =
   map (column (rename schema (DataFrame rent_data_2025))) rent_columns"
  by (simp add: extract_rent_data_from_pdf_2025_def rent_columns_def column_set_column)

lemma rent_columns_future:
  "map (column (the (extract_rent_data_from_pdf_future w p y))) rent_columns =
   map (column (rename schema (DataFrame rent_data_future))) rent_columns"
  by (simp add: extract_rent_data_from_pdf_future_def rent_columns_def column_set_column)

lemma rent_columns_rent:
  "map (column (the (extract_rent_data_from_pdf_rent w p))) rent_columns =
   map (column (the (extract_rent_data_from_pdf_rent w' p'))) rent_columns"
  by (simp add: extract_rent_data_from_pdf_rent_def rent_columns_def column_def
      DataFrame_of_columns_def)

text \<open>The rows a run adds to the table, with the body of the download left open.\<close>

lemma rents_run_2025:
  "rents (snd (run_full_pipeline_2025 (w\<lparr>fetch := \<lambda>u. Response b\<rparr>) s)) =
     (if disk_ok w (path_join data_dir ''2025-Payment-Standards-All-BR.pdf'') \<and> db w = DbOk
      then rents s @ to_records (the (extract_rent_data_from_pdf_2025 w []))
      else rents s)"
  by (simp add: run_full_pipeline_2025_def download_payment_standards_pdf_2025_def
      extract_rent_data_from_pdf_2025_def rents_save_to_database Let_def)

lemma rents_run_future:
  "rents (snd (run_full_pipeline_future (w\<lparr>fetch := \<lambda>u. Response b\<rparr>) s)) =
     (case find_latest_payment_standards w of
        None \<Rightarrow> rents s
      | Some c \<Rightarrow>
          if disk_ok w (path_join data_dir (filename c))
          then rents (snd (save_to_database_future w
                 (the (extract_rent_data_from_pdf_future w [] (year c))) s))
          else rents s)"
proof -
  have f: "find_latest_payment_standards (w\<lparr>fetch := \<lambda>u. Response b\<rparr>) =
           find_latest_payment_standards w"
    by (simp add: find_latest_payment_standards_def)
  show ?thesis
    unfolding run_full_pipeline_future_def f
    by (cases "find_latest_payment_standards w")
      (simp_all add: download_payment_standards_pdf_future_def
        extract_rent_data_from_pdf_future_def rents_save_to_database_future Let_def)
qed

lemma rents_payment_standards_stage:
  "rents (payment_standards_stage (w\<lparr>fetch := \<lambda>u. Response b\<rparr>) s) =
     (case get_latest_payment_standards w of
        None \<Rightarrow> rents s
      | Some u \<Rightarrow>
          if u \<noteq> [] \<and> disk_ok w (path_join data_dir (split_last u)) \<and> db w = DbOk
          then rents s @ to_records (the (extract_rent_data_from_pdf_rent w []))
          else rents s)"
proof -
  have f: "get_latest_payment_standards (w\<lparr>fetch := \<lambda>u. Response b\<rparr>) =
           get_latest_payment_standards w"
    by (simp add: get_latest_payment_standards_def get_payment_standards_files_def)
  show ?thesis
    unfolding payment_standards_stage_def f
    by (cases "get_latest_payment_standards w")
      (simp_all add: download_payment_standards_def extract_rent_data_from_pdf_rent_def
        rents_save_to_database Let_def)
qed

lemma rents_run_rent:
  "rents (snd (run_full_pipeline_rent (w\<lparr>fetch := \<lambda>u. Response b\<rparr>) s)) =
     (let t = rents (payment_standards_stage (w\<lparr>fetch := \<lambda>u. Response []\<rparr>) s)
      in if db w = DbOk then t @ to_records (the (get_rent_estimator_data w)) else t)"
  by (simp add: run_full_pipeline_rent_def rents_rent_estimator_stage
      rents_payment_standards_stage get_rent_estimator_data_def Let_def)

text \<open>
  C9. Each of the three extractions returns the same result for any two paths. The
  columns of locality, postal code and rents are the same for any two paths, any two
  times of day and any two year labels. And whatever bytes a successful download
  delivers, the run of each script leaves the same rows in the relational table.
\<close>

theorem extraction_ignores_artifact:
  "extract_rent_data_from_pdf_2025 w p1 = extract_rent_data_from_pdf_2025 w p2
   \<and> extract_rent_data_from_pdf_future w p1 y = extract_rent_data_from_pdf_future w p2 y
   \<and> extract_rent_data_from_pdf_rent w p1 = extract_rent_data_from_pdf_rent w p2
   \<and> map (column (the (extract_rent_data_from_pdf_2025 w1 p1))) rent_columns
       = map (column (the (extract_rent_data_from_pdf_2025 w2 p2))) rent_columns
   \<and> map (column (the (extract_rent_data_from_pdf_future w1 p1 y1))) rent_columns
       = map (column (the (extract_rent_data_from_pdf_future w2 p2 y2))) rent_columns
   \<and> map (column (the (extract_rent_data_from_pdf_rent w1 p1))) rent_columns
       = map (column (the (extract_rent_data_from_pdf_rent w2 p2))) rent_columns
   \<and> rents (snd (run_full_pipeline_2025 (w\<lparr>fetch := \<lambda>u. Response b1\<rparr>) s))
       = rents (snd (run_full_pipeline_2025 (w\<lparr>fetch := \<lambda>u. Response b2\<rparr>) s))
   \<and> rents (snd (run_full_pipeline_future (w\<lparr>fetch := \<lambda>u. Response b1\<rparr>) s))
       = rents (snd (run_full_pipeline_future (w\<lparr>fetch := \<lambda>u. Response b2\<rparr>) s))
   \<and> rents (snd (run_full_pipeline_rent (w\<lparr>fetch := \<lambda>u. Response b1\<rparr>) s))
       = rents (snd (run_full_pipeline_rent (w\<lparr>fetch := \<lambda>u. Response b2\<rparr>) s))"
proof -
  have paths: "extract_rent_data_from_pdf_2025 w p1 = extract_rent_data_from_pdf_2025 w p2"
    "extract_rent_data_from_pdf_future w p1 y = extract_rent_data_from_pdf_future w p2 y"
    "extract_rent_data_from_pdf_rent w p1 = extract_rent_data_from_pdf_rent w p2"
    by (simp_all add: extract_rent_data_from_pdf_2025_def extract_rent_data_from_pdf_future_def
        extract_rent_data_from_pdf_rent_def)
  have a: "map (column (the (extract_rent_data_from_pdf_2025 w1 p1))) rent_columns
       = map (column (the (extract_rent_data_from_pdf_2025 w2 p2))) rent_columns"
    by (simp only: rent_columns_2025)
  have b: "map (column (the (extract_rent_data_from_pdf_future w1 p1 y1))) rent_columns
       = map (column (the (extract_rent_data_from_pdf_future w2 p2 y2))) rent_columns"
    by (simp only: rent_columns_future)
  have c: "map (column (the (extract_rent_data_from_pdf_rent w1 p1))) rent_columns
       = map (column (the (extract_rent_data_from_pdf_rent w2 p2))) rent_columns"
    by (rule rent_columns_rent)
  have d: "rents (snd (run_full_pipeline_2025 (w\<lparr>fetch := \<lambda>u. Response b1\<rparr>) s))
       = rents (snd (run_full_pipeline_2025 (w\<lparr>fetch := \<lambda>u. Response b2\<rparr>) s))"
    by (simp only: rents_run_2025)
  have e: "rents (snd (run_full_pipeline_future (w\<lparr>fetch := \<lambda>u. Response b1\<rparr>) s))
       = rents (snd (run_full_pipeline_future (w\<lparr>fetch := \<lambda>u. Response b2\<rparr>) s))"
    by (simp only: rents_run_future)
  have f: "rents (snd (run_full_pipeline_rent (w\<lparr>fetch := \<lambda>u. Response b1\<rparr>) s))
       = rents (snd (run_full_pipeline_rent (w\<lparr>fetch := \<lambda>u. Response b2\<rparr>) s))"
    by (simp only: rents_run_rent)
  show ?thesis
    using paths a b c d e f by (intro conjI)
qed

section \<open>What the transform leaves alone\<close>

text \<open>
  Against C10 as stated. A table that comes with a \<^verbatim>\<open>source\<close> column loses that
  column's values: the transform writes \<^verbatim>\<open>BHA\<close> over them, and only \<^verbatim>\<open>updated_at\<close> is a new column.
\<close>

theorem source_column_overwritten:
  "column labelled_table ''source'' = Some [Text ''HUD'']
   \<and> column (transform_data (online [] DbOk) labelled_table) ''source'' = Some [Text ''BHA'']
   \<and> map fst (columns labelled_table) = [''zip_code'', ''source'']
   \<and> map fst (columns (transform_data (online [] DbOk) labelled_table))
       = [''zip_code'', ''source'', ''updated_at'']"
  by (simp add: transform_data_def online_def labelled_table_def DataFrame_of_columns_def
      set_column_def column_def)

text \<open>
  C10, as the code has it. When a statement of the transform raises, the table it was
  given is returned as it is. Otherwise the row count is kept, every column other than
  \<^verbatim>\<open>source\<close> and \<^verbatim>\<open>updated_at\<close> keeps its cells, \<^verbatim>\<open>source\<close> holds \<^verbatim>\<open>BHA\<close> and
  \<^verbatim>\<open>updated_at\<close> holds the time of the run in every row, and the column names are those
  of the input in their order, followed by \<^verbatim>\<open>source\<close> and by \<^verbatim>\<open>updated_at\<close> where the
  input did not have them (a column of the input with one of these names is overwritten
  in place).
\<close>

theorem transform_data_frame:
  "(raises w \<longrightarrow> transform_data w df = df)
   \<and> (\<not> raises w \<longrightarrow>
        nrows (transform_data w df) = nrows df
      \<and> (\<forall>c. c \<noteq> ''source'' \<and> c \<noteq> ''updated_at'' \<longrightarrow>
            column (transform_data w df) c = column df c)
      \<and> column (transform_data w df) ''source'' = Some (replicate (nrows df) (Text ''BHA''))
      \<and> column (transform_data w df) ''updated_at'' = Some (replicate (nrows df) (Text (now w)))
      \<and> map fst (columns (transform_data w df)) =
          map fst (columns df)
          @ (if ''source'' \<in> set (map fst (columns df)) then [] else [''source''])
          @ (if ''updated_at'' \<in> set (map fst (columns df)) then [] else [''updated_at'']))"
proof -
  have names: "map fst (columns (transform_data w df)) =
          map fst (columns df)
          @ (if ''source'' \<in> set (map fst (columns df)) then [] else [''source''])
          @ (if ''updated_at'' \<in> set (map fst (columns df)) then [] else [''updated_at''])"
    if "\<not> raises w"
    using that by (simp add: transform_data_def names_set_column)
  show ?thesis
    using names by (simp add: column_transform_data) (simp add: transform_data_def)
qed

theorem transform_data_frame_witness:
  "transform_data ((online [] DbOk)\<lparr>raises := True\<rparr>) labelled_table = labelled_table
   \<and> column (transform_data (online [] DbOk) labelled_table) ''zip_code'' = Some [Text ''02108'']
   \<and> column (transform_data (online [] DbOk) labelled_table) ''updated_at''
       = Some [Text ''2025-07-01T09:00:00'']"
  using transform_data_frame[of "(online [] DbOk)\<lparr>raises := True\<rparr>" labelled_table]
    transform_data_frame[of "online [] DbOk" labelled_table]
  by (simp add: online_def labelled_table_def DataFrame_of_columns_def column_def)

end
